theory Spec2Isabelle
  imports Complex_Main "HOL-Library.AList"
begin

section \<open>Python values used by the connection analyzer\<close>

text \<open>
  The analyzer of \<^verbatim>\<open>modules/flowalerts/conn.py\<close> works on strings (addresses, uids,
  profile and time-window ids), on Python integers and on dictionaries. Strings are
  \<^typ>\<open>string\<close>, integers are \<^typ>\<open>int\<close>, and a dictionary is an association list
  with distinct keys, looked up with \<^const>\<open>map_of\<close> and written with
  \<^const>\<open>AList.update\<close>: an existing key keeps its place, a new key goes to the end,
  and \<^const>\<open>length\<close> is Python's \<^verbatim>\<open>len\<close>.
\<close>

datatype py_error = KeyError | IndexError | UnboundLocalError

type_synonym timestamp = real

definition lower_char :: "char \<Rightarrow> char" where
  "lower_char c =
     (let n = (of_char c :: nat) in if 65 \<le> n \<and> n \<le> 90 then char_of (n + 32) else c)"

text \<open>\<^verbatim>\<open>str.lower()\<close> on the ASCII range.\<close>

definition lower :: "string \<Rightarrow> string" where
  "lower s = map lower_char s"

text \<open>\<^verbatim>\<open>s.startswith(p)\<close>, \<^verbatim>\<open>s.endswith(p)\<close> and the substring test \<^verbatim>\<open>sub in s\<close>.\<close>

fun startswith :: "string \<Rightarrow> string \<Rightarrow> bool" where
  "startswith s [] = True"
| "startswith [] (p # ps) = False"
| "startswith (c # cs) (p # ps) = (c = p \<and> startswith cs ps)"

definition endswith :: "string \<Rightarrow> string \<Rightarrow> bool" where
  "endswith s p = startswith (rev s) (rev p)"

fun str_contains :: "string \<Rightarrow> string \<Rightarrow> bool" where
  "str_contains sub [] = (sub = [])"
| "str_contains sub (c # cs) = (startswith (c # cs) sub \<or> str_contains sub cs)"

text \<open>
  \<^verbatim>\<open>s.split(sep)\<close> with a one-character separator: the result is never empty, so
  \<^verbatim>\<open>[-1]\<close> always exists, while \<^verbatim>\<open>[1]\<close> raises \<^verbatim>\<open>IndexError\<close> when the
  separator does not occur.
\<close>

fun split :: "char \<Rightarrow> string \<Rightarrow> string list" where
  "split sep [] = [[]]"
| "split sep (c # cs) =
     (if c = sep then [] # split sep cs
      else (case split sep cs of [] \<Rightarrow> [[c]] | w # ws \<Rightarrow> (c # w) # ws))"

definition split_last :: "string \<Rightarrow> string" where
  "split_last profileid = last (split CHR ''_'' profileid)"

definition split_1 :: "string \<Rightarrow> py_error + string" where
  "split_1 profileid =
     (case split CHR ''_'' profileid of _ # x # _ \<Rightarrow> Inr x | _ \<Rightarrow> Inl IndexError)"

text \<open>\<^verbatim>\<open>str(n)\<close> of an integer, as the f-strings that build keys render a port.\<close>

function str_nat :: "nat \<Rightarrow> string" where
  "str_nat n =
     (if n < 10 then [char_of (48 + n)] else str_nat (n div 10) @ [char_of (48 + n mod 10)])"
  by pat_completeness auto
termination
  by (relation "measure id") auto

definition str_int :: "int \<Rightarrow> string" where
  "str_int i = (if i < 0 then CHR ''-'' # str_nat (nat (- i)) else str_nat (nat i))"

text \<open>Truthiness of a value that is a string or one of \<^verbatim>\<open>None\<close>/\<^verbatim>\<open>False\<close>.\<close>

definition truthy :: "string option \<Rightarrow> bool" where
  "truthy v = (case v of None \<Rightarrow> False | Some s \<Rightarrow> s \<noteq> [])"

section \<open>Evidence\<close>

text \<open>
  One constructor for each \<^verbatim>\<open>self.set_evidence.*\<close> call of the checks below, with the
  arguments in the order of the call.
\<close>

datatype evidence =
    Multiple_reconnection_attempts string string string "string list" timestamp int
  | Conn_without_dns string timestamp string string string
  | Device_changing_ips string string string string string timestamp
  | Connection_to_multiple_ports string string "string list" timestamp "string list" string string
  | Dga int timestamp string string "string list"
  | Invalid_dns_answer string string string string timestamp string

section \<open>P2P heuristic\<close>

text \<open>
  \<^verbatim>\<open>self.p2p_daddrs\<close>: destination address to the number of high-port UDP
  connections recorded for it.
\<close>

type_synonym p2p_daddrs = "(string \<times> int) list"

text \<open>
  \<^verbatim>\<open>is_p2p(self, dport, proto, daddr)\<close>: the result is the returned boolean and the
  counter as the call leaves it. The \<^verbatim>\<open>try\<close> block reads
  \<^verbatim>\<open>self.p2p_daddrs[daddr]\<close>; the \<^verbatim>\<open>KeyError\<close> handler is the
  \<^const>\<open>None\<close> case.
\<close>

definition is_p2p :: "int \<Rightarrow> string \<Rightarrow> string \<Rightarrow> p2p_daddrs \<Rightarrow> bool \<times> p2p_daddrs" where
  "is_p2p dport proto daddr p2p =
     (if lower proto = ''udp'' \<and> dport > 30000 then
        (case map_of p2p daddr of
           Some c \<Rightarrow>
             if c \<ge> 6 then (True, p2p)
             else
               (let p2p' = AList.update daddr (c + 1) p2p
                in if length p2p' \<ge> 5 then (True, p2p') else (False, p2p'))
         | None \<Rightarrow>
             (let p2p' = AList.update daddr 1 p2p
              in if length p2p' \<ge> 5 then (True, p2p') else (False, p2p')))
      else (False, p2p))"

text \<open>A connection as \<^const>\<open>is_p2p\<close> receives it: destination port, protocol, destination.\<close>

type_synonym p2p_conn = "int \<times> string \<times> string"

definition high_port_udp :: "p2p_conn \<Rightarrow> bool" where
  "high_port_udp c = (case c of (dport, proto, daddr) \<Rightarrow> lower proto = ''udp'' \<and> dport > 30000)"

definition conn_daddr :: "p2p_conn \<Rightarrow> string" where
  "conn_daddr c = (case c of (dport, proto, daddr) \<Rightarrow> daddr)"

text \<open>The counter after a sequence of connections went through \<^const>\<open>is_p2p\<close>, in order.\<close>

fun p2p_run :: "p2p_conn list \<Rightarrow> p2p_daddrs \<Rightarrow> p2p_daddrs" where
  "p2p_run [] p2p = p2p"
| "p2p_run ((dport, proto, daddr) # cs) p2p = p2p_run cs (snd (is_p2p dport proto daddr p2p))"

text \<open>
  How many of the connections \<open>cs\<close> were high-port UDP connections to \<open>d\<close>: the hits that
  \<^const>\<open>is_p2p\<close> had the chance to record for \<open>d\<close>.
\<close>

definition hits :: "p2p_conn list \<Rightarrow> string \<Rightarrow> nat" where
  "hits cs d = length (filter (\<lambda>c. high_port_udp c \<and> conn_daddr c = d) cs)"

text \<open>
  What the counter holds after the connections \<open>cs\<close>: one entry for each destination hit,
  counting its hits up to 6, where the count stops.
\<close>

definition p2p_inv :: "p2p_conn list \<Rightarrow> p2p_daddrs \<Rightarrow> bool" where
  "p2p_inv cs s \<longleftrightarrow>
     distinct (map fst s) \<and>
     (\<forall>d. map_of s d = (if hits cs d = 0 then None else Some (min 6 (int (hits cs d)))))"

section \<open>Reconnection attempts\<close>

text \<open>
  Modelled from the spec: the external store (\<^verbatim>\<open>self.db\<close>) is not part of the sources
  at hand; the spec gives it a \<^verbatim>\<open>get/set reconnection table\<close> contract, keyed by
  profile and time window. It is a key-value store outside the process (the database tests
  read it back with \<^verbatim>\<open>db.r.hget\<close> and \<^verbatim>\<open>json.loads\<close>), so a table read from it is
  a value of its own: changing the table that was read changes nothing in the store until
  \<^verbatim>\<open>setReconnections\<close> writes it back. A profile and time window without a table read
  as the empty table. The field \<open>calls\<close> logs every call made to the store, in order.
\<close>

type_synonym reconnection_table = "(string \<times> (int \<times> string list)) list"

datatype db_call =
    Call_get_reconnections_for_tw string string
  | Call_setReconnections string string reconnection_table

record db =
  reconnections_of :: "string \<times> string \<Rightarrow> reconnection_table"
  calls :: "db_call list"

definition get_reconnections_for_tw :: "string \<Rightarrow> string \<Rightarrow> db \<Rightarrow> reconnection_table \<times> db" where
  "get_reconnections_for_tw profileid twid d =
     (reconnections_of d (profileid, twid),
      d\<lparr>calls := calls d @ [Call_get_reconnections_for_tw profileid twid]\<rparr>)"

definition setReconnections :: "string \<Rightarrow> string \<Rightarrow> reconnection_table \<Rightarrow> db \<Rightarrow> db" where
  "setReconnections profileid twid data d =
     d\<lparr>reconnections_of := (reconnections_of d)((profileid, twid) := data),
       calls := calls d @ [Call_setReconnections profileid twid data]\<rparr>"

text \<open>The key \<^verbatim>\<open>f"{saddr}-{daddr}-{dport}"\<close>.\<close>

definition reconnection_key :: "string \<Rightarrow> string \<Rightarrow> int \<Rightarrow> string" where
  "reconnection_key saddr daddr dport = saddr @ ''-'' @ daddr @ ''-'' @ str_int dport"

text \<open>
  The \<^verbatim>\<open>try\<close> block of \<^verbatim>\<open>check_multiple_reconnection_attempts\<close>: the new count, the
  uids (bound only when the key was there: the \<^verbatim>\<open>KeyError\<close> handler assigns
  \<^verbatim>\<open>reconnections\<close> and the table entry, not \<^verbatim>\<open>uids\<close>), and the local table.
\<close>

definition count_reconnection ::
  "string \<Rightarrow> string \<Rightarrow> reconnection_table \<Rightarrow> int \<times> string list option \<times> reconnection_table" where
  "count_reconnection key uid current_reconnections =
     (case map_of current_reconnections key of
        Some (reconnections, uids) \<Rightarrow>
          (reconnections + 1, Some (uids @ [uid]),
           AList.update key (reconnections + 1, uids @ [uid]) current_reconnections)
      | None \<Rightarrow> (1, None, AList.update key (1, [uid]) current_reconnections))"

text \<open>
  \<^verbatim>\<open>check_multiple_reconnection_attempts\<close>: the evidence set by the call and the store
  as the call leaves it. Reading the unbound \<^verbatim>\<open>uids\<close> would raise.
\<close>

definition check_multiple_reconnection_attempts ::
  "string \<Rightarrow> string \<Rightarrow> string \<Rightarrow> int \<Rightarrow> string \<Rightarrow> string \<Rightarrow> string \<Rightarrow> timestamp \<Rightarrow> db
     \<Rightarrow> py_error + (evidence list \<times> db)" where
  "check_multiple_reconnection_attempts origstate saddr daddr dport uid profileid twid timestamp d =
     (if origstate \<noteq> ''REJ'' then Inr ([], d)
      else
        (let key = reconnection_key saddr daddr dport;
             (current_reconnections, d1) = get_reconnections_for_tw profileid twid d;
             (reconnections, uids, current_reconnections') =
                count_reconnection key uid current_reconnections
         in if reconnections < 5 then Inr ([], d1)
            else
              (case uids of
                 None \<Rightarrow> Inl UnboundLocalError
               | Some us \<Rightarrow>
                   Inr ([Multiple_reconnection_attempts profileid twid daddr us timestamp reconnections],
                        setReconnections profileid twid
                          (AList.update key (0, []) current_reconnections') d1))))"

text \<open>
  The count the store holds for a key in the table of a profile and time window, 0 when
  the table has no such key.
\<close>

definition stored_count :: "db \<Rightarrow> string \<Rightarrow> string \<Rightarrow> string \<Rightarrow> int" where
  "stored_count d profileid twid key =
     (case map_of (reconnections_of d (profileid, twid)) key of
        None \<Rightarrow> 0
      | Some (reconnections, uids) \<Rightarrow> reconnections)"

text \<open>A flow as \<^verbatim>\<open>analyze\<close> hands it to the check: origstate, saddr, daddr, dport, uid.\<close>

type_synonym rej_flow = "string \<times> string \<times> string \<times> int \<times> string"

text \<open>
  The check applied to a sequence of flows of one profile and time window, each on the
  store the previous call left: the evidence of every call, in order, and the final store.
\<close>

fun reconnection_run ::
  "string \<Rightarrow> string \<Rightarrow> timestamp \<Rightarrow> rej_flow list \<Rightarrow> db \<Rightarrow> py_error + (evidence list list \<times> db)" where
  "reconnection_run profileid twid timestamp [] d = Inr ([], d)"
| "reconnection_run profileid twid timestamp ((origstate, saddr, daddr, dport, uid) # fs) d =
     (case check_multiple_reconnection_attempts origstate saddr daddr dport uid profileid twid timestamp d of
        Inl e \<Rightarrow> Inl e
      | Inr (ev, d') \<Rightarrow>
          (case reconnection_run profileid twid timestamp fs d' of
             Inl e \<Rightarrow> Inl e
           | Inr (evs, d'') \<Rightarrow> Inr (ev # evs, d'')))"

section \<open>Well-known organizations\<close>

text \<open>
  What \<^verbatim>\<open>self.db.get_ip_info(ip)\<close> returns, as far as \<^verbatim>\<open>is_well_known_org\<close> reads
  it: the value under \<^verbatim>\<open>"SNI"\<close> (a list of entries, or some other value) and the value
  under \<^verbatim>\<open>"reverse_dns"\<close>, each present or not; \<^const>\<open>None\<close> for the whole is an
  address without data. An entry of the SNI list is \<^verbatim>\<open>None\<close>, a string, or a dict that
  may hold \<^verbatim>\<open>"server_name"\<close>.
\<close>

datatype sni_item = Sni_None | Sni_str string | Sni_dict "string option"

datatype sni_field = Sni_list "sni_item list" | Sni_plain string

record ip_info =
  SNI :: "sni_field option"
  reverse_dns :: "string option"

text \<open>
  The collaborators of \<^verbatim>\<open>is_well_known_org\<close>, none of them in the sources at hand and
  so taken as parameters: the store's \<^verbatim>\<open>get_ip_info\<close>, the list
  \<^verbatim>\<open>utils.supported_orgs\<close>, and the three tests of
  \<^verbatim>\<open>self.whitelist.org_analyzer\<close>.
\<close>

record org_env =
  get_ip_info :: "string \<Rightarrow> ip_info option"
  supported_orgs :: "string list"
  is_ip_asn_in_org_asn :: "string \<Rightarrow> string \<Rightarrow> bool"
  is_domain_in_org :: "string \<Rightarrow> string \<Rightarrow> bool"
  is_ip_in_org :: "string \<Rightarrow> string \<Rightarrow> bool"

text \<open>
  The first \<^verbatim>\<open>try\<close> block: \<^verbatim>\<open>KeyError\<close> and \<^verbatim>\<open>TypeError\<close> give
  \<^verbatim>\<open>False\<close> (here \<^const>\<open>None\<close>); \<^verbatim>\<open>sni[0]\<close> on an empty list raises
  \<^verbatim>\<open>IndexError\<close>, which the handler does not catch.
\<close>

definition sni_of :: "ip_info option \<Rightarrow> py_error + string option" where
  "sni_of ip_data =
     (case ip_data of
        None \<Rightarrow> Inr None
      | Some data \<Rightarrow>
          (case SNI data of
             None \<Rightarrow> Inr None
           | Some (Sni_plain s) \<Rightarrow> Inr (Some s)
           | Some (Sni_list []) \<Rightarrow> Inl IndexError
           | Some (Sni_list (Sni_None # _)) \<Rightarrow> Inr None
           | Some (Sni_list (Sni_str s # _)) \<Rightarrow> (if s = [] then Inr None else Inr (Some s))
           | Some (Sni_list (Sni_dict server_name # _)) \<Rightarrow> Inr server_name))"

definition rdns_of :: "ip_info option \<Rightarrow> string option" where
  "rdns_of ip_data = (case ip_data of None \<Rightarrow> None | Some data \<Rightarrow> reverse_dns data)"

text \<open>
  The test \<^verbatim>\<open>domain and is_domain_in_org(domain, org)\<close>, where the domain is a string
  or \<^verbatim>\<open>False\<close>.
\<close>

definition domain_matches :: "org_env \<Rightarrow> string option \<Rightarrow> string \<Rightarrow> bool" where
  "domain_matches env domain org =
     (case domain of None \<Rightarrow> False | Some s \<Rightarrow> s \<noteq> [] \<and> is_domain_in_org env s org)"

text \<open>
  The inner loop \<^verbatim>\<open>for domain in flow_domains\<close> for one organization: \<^const>\<open>True\<close>
  when one of its three tests returns \<^verbatim>\<open>True\<close>, \<^const>\<open>False\<close> when the loop runs out.
\<close>

fun domains_loop :: "org_env \<Rightarrow> string \<Rightarrow> string \<Rightarrow> string option list \<Rightarrow> bool" where
  "domains_loop env ip org [] = False"
| "domains_loop env ip org (domain # domains) =
     (if is_ip_asn_in_org_asn env ip org then True
      else if domain_matches env domain org then True
      else if is_ip_in_org env ip org then True
      else domains_loop env ip org domains)"

text \<open>
  The outer loop \<^verbatim>\<open>for org in utils.supported_orgs\<close>. Its body ends with
  \<^verbatim>\<open>return False\<close>, at the depth of the inner \<^verbatim>\<open>for\<close>: the first organization
  decides and the others are never visited. With no organization at all the function falls
  off its end and returns \<^verbatim>\<open>None\<close>.
\<close>

fun orgs_loop :: "org_env \<Rightarrow> string \<Rightarrow> string option list \<Rightarrow> string list \<Rightarrow> bool option" where
  "orgs_loop env ip flow_domains [] = None"
| "orgs_loop env ip flow_domains (org # orgs) =
     (if domains_loop env ip org flow_domains then Some True else Some False)"

definition is_well_known_org :: "org_env \<Rightarrow> string \<Rightarrow> py_error + bool option" where
  "is_well_known_org env ip =
     (let ip_data = get_ip_info env ip
      in case sni_of ip_data of
           Inl e \<Rightarrow> Inl e
         | Inr sni \<Rightarrow>
             (let rdns = rdns_of ip_data;
                  flow_domains = [rdns, sni]
              in Inr (orgs_loop env ip flow_domains (supported_orgs env))))"

text \<open>
  An address matches an organization when its ASN is the organization's, its rDNS or SNI
  domain belongs to it, or the address lies in its range: the three tests the loop makes.
\<close>

definition matches_org :: "org_env \<Rightarrow> string \<Rightarrow> string \<Rightarrow> bool" where
  "matches_org env ip org =
     (is_ip_asn_in_org_asn env ip org \<or>
      domain_matches env (rdns_of (get_ip_info env ip)) org \<or>
      (case sni_of (get_ip_info env ip) of
         Inl e \<Rightarrow> False
       | Inr sni \<Rightarrow> domain_matches env sni org) \<or>
      is_ip_in_org env ip org)"

definition matches_well_known_org :: "org_env \<Rightarrow> string \<Rightarrow> bool" where
  "matches_well_known_org env ip = list_ex (matches_org env ip) (supported_orgs env)"

section \<open>Connection without DNS resolution\<close>

text \<open>
  What \<^verbatim>\<open>self.db.get_dns_resolution(daddr)\<close> returns: a dict, of which the check reads
  the list under \<^verbatim>\<open>"resolved-by"\<close> (present or not), or a list, on which
  \<^verbatim>\<open>.get\<close> raises the \<^verbatim>\<open>AttributeError\<close> that the check catches.
\<close>

datatype dns_resolution = Resolution_dict "string list option" | Resolution_list

text \<open>
  What the check reads from outside when it runs, none of it in the sources at hand and so
  taken as parameters: the answers of the store and of the DNS analyzer, the configured
  address lists, whether the process reads an interface (\<^verbatim>\<open>"-i" in sys.argv\<close>), and
  the minutes since start (\<^verbatim>\<open>utils.get_time_diff(start_time, now)\<close>). The store's
  \<^verbatim>\<open>get_the_other_ip_version\<close> is given decoded (\<^verbatim>\<open>json.loads\<close>), \<^const>\<open>None\<close>
  when the store has none.
\<close>

record dns_env =
  is_ignored_ip :: "string \<Rightarrow> bool"
  client_ips :: "string list"
  get_input_type :: string
  is_doh_server :: "string \<Rightarrow> bool"
  is_dns_server :: "string \<Rightarrow> bool"
  interface_in_argv :: bool
  is_growing_zeek_dir :: bool
  our_ips :: "string list"
  minutes_since_start :: real
  is_ip_resolved :: "string \<Rightarrow> int \<Rightarrow> bool"
  get_the_other_ip_version :: "string \<Rightarrow> string option"
  get_dns_resolution :: "string \<Rightarrow> dns_resolution"
  orgs :: org_env

text \<open>\<^verbatim>\<open>self.conn_without_dns_interface_wait_time\<close>, set in \<^verbatim>\<open>init\<close>.\<close>

definition conn_without_dns_interface_wait_time :: real where
  "conn_without_dns_interface_wait_time = 30"

definition should_ignore_conn_without_dns :: "dns_env \<Rightarrow> string \<Rightarrow> string \<Rightarrow> string \<Rightarrow> bool" where
  "should_ignore_conn_without_dns env flow_type appproto daddr =
     (flow_type \<noteq> ''conn''
      \<or> appproto \<in> {''dns'', ''icmp''}
      \<or> is_ignored_ip env daddr
      \<or> daddr \<in> set (client_ips env)
      \<or> get_input_type env = ''zeek_log_file''
      \<or> is_doh_server env daddr
      \<or> is_dns_server env daddr)"

definition check_if_resolution_was_made_by_different_version ::
  "dns_env \<Rightarrow> string \<Rightarrow> string \<Rightarrow> bool" where
  "check_if_resolution_was_made_by_different_version env profileid daddr =
     (let other_ip = get_the_other_ip_version env profileid;
          dns_resolution = get_dns_resolution env daddr
      in case dns_resolution of
           Resolution_list \<Rightarrow> False
         | Resolution_dict resolved_by \<Rightarrow>
             (case other_ip of
                None \<Rightarrow> False
              | Some ip \<Rightarrow>
                  ip \<noteq> [] \<and> ip \<in> set (case resolved_by of None \<Rightarrow> [] | Some l \<Rightarrow> l)))"

text \<open>
  The analyzer's own state, as far as the check touches it: the list of uids handed to the
  timer, the timers started (\<^verbatim>\<open>TimerThread(15, self.check_..., params)\<close>, as delay and
  parameters), and the evidence set so far.
\<close>

type_synonym timer_params = "string \<times> string \<times> string \<times> string \<times> string \<times> timestamp \<times> string"

record conn_state =
  connections_checked_in_conn_dns_timer_thread :: "string list"
  timers :: "(int \<times> timer_params) list"
  evidence_set :: "evidence list"

text \<open>
  \<^verbatim>\<open>check_connection_without_dns_resolution\<close>: the returned value (\<^verbatim>\<open>None\<close> or
  \<^verbatim>\<open>False\<close>) and the state as the call leaves it. \<^verbatim>\<open>list.remove\<close> removes the first
  occurrence (\<^const>\<open>remove1\<close>); the \<^verbatim>\<open>ValueError\<close> of a missing element is suppressed.
\<close>

definition check_connection_without_dns_resolution ::
  "dns_env \<Rightarrow> string \<Rightarrow> string \<Rightarrow> string \<Rightarrow> string \<Rightarrow> string \<Rightarrow> timestamp \<Rightarrow> string \<Rightarrow> conn_state
     \<Rightarrow> py_error + (bool option \<times> conn_state)" where
  "check_connection_without_dns_resolution env flow_type appproto daddr twid profileid timestamp uid st =
     (if should_ignore_conn_without_dns env flow_type appproto daddr then Inr (None, st)
      else if (interface_in_argv env \<or> is_growing_zeek_dir env) \<and>
              split_last profileid \<notin> set (our_ips env) then Inr (Some False, st)
      else if (interface_in_argv env \<or> is_growing_zeek_dir env) \<and>
              minutes_since_start env < conn_without_dns_interface_wait_time then Inr (Some False, st)
      else if is_ip_resolved env daddr 24 then Inr (Some False, st)
      else if uid \<notin> set (connections_checked_in_conn_dns_timer_thread st) then
        Inr (None,
             st\<lparr>connections_checked_in_conn_dns_timer_thread :=
                   connections_checked_in_conn_dns_timer_thread st @ [uid],
                 timers := timers st @
                   [(15, (flow_type, appproto, daddr, twid, profileid, timestamp, uid))]\<rparr>)
      else if check_if_resolution_was_made_by_different_version env profileid daddr then
        Inr (Some False, st)
      else
        (case is_well_known_org (orgs env) daddr of
           Inl e \<Rightarrow> Inl e
         | Inr (Some True) \<Rightarrow> Inr (Some False, st)
         | Inr _ \<Rightarrow>
             Inr (None,
                  st\<lparr>evidence_set := evidence_set st @
                        [Conn_without_dns daddr timestamp profileid twid uid],
                      connections_checked_in_conn_dns_timer_thread :=
                        remove1 uid (connections_checked_in_conn_dns_timer_thread st)\<rparr>)))"

section \<open>Device changing IPs\<close>

text \<open>
  The address tests are library calls and taken as parameters:
  \<^verbatim>\<open>validators.ipv4\<close> and \<^verbatim>\<open>utils.is_private_ip(ipaddress.ip_address(_))\<close>, the
  second called only on a string the first accepted.
\<close>

record addr_env =
  ipv4 :: "string \<Rightarrow> bool"
  is_private_ip :: "string \<Rightarrow> bool"

text \<open>
  Modelled from the spec: the store's \<^verbatim>\<open>get/set "source IP seen before" marker\<close> and
  \<^verbatim>\<open>get MAC-IP bindings\<close>, not part of the sources at hand. The marker is a set of
  addresses; \<^verbatim>\<open>get_ip_of_mac\<close> gives the addresses bound to a MAC, decoded
  (\<^verbatim>\<open>json.loads\<close>), or \<^const>\<open>None\<close> when the MAC has no entry.
\<close>

record mac_db =
  seen_in_connlog :: "string set"
  get_ip_of_mac :: "string \<Rightarrow> string list option"

definition was_ip_seen_in_connlog_before :: "mac_db \<Rightarrow> string \<Rightarrow> bool" where
  "was_ip_seen_in_connlog_before d ip = (ip \<in> seen_in_connlog d)"

definition mark_srcip_as_seen_in_connlog :: "string \<Rightarrow> mac_db \<Rightarrow> mac_db" where
  "mark_srcip_as_seen_in_connlog ip d = d\<lparr>seen_in_connlog := insert ip (seen_in_connlog d)\<rparr>"

text \<open>
  The \<^verbatim>\<open>for ... else\<close> over the bound addresses: the first one that is an IPv4
  address, or \<^const>\<open>None\<close> when the loop ends without \<^verbatim>\<open>break\<close>.
\<close>

definition first_ipv4 :: "addr_env \<Rightarrow> string list \<Rightarrow> string option" where
  "first_ipv4 env ips = find (ipv4 env) ips"

definition check_device_changing_ips ::
  "addr_env \<Rightarrow> string \<Rightarrow> string \<Rightarrow> string \<Rightarrow> string \<Rightarrow> string \<Rightarrow> timestamp \<Rightarrow> mac_db
     \<Rightarrow> evidence list \<times> mac_db" where
  "check_device_changing_ips env flow_type smac profileid twid uid timestamp d =
     (if \<not> str_contains ''conn'' flow_type then ([], d)
      else if smac = [] then ([], d)
      else
        (let saddr = split_last profileid
         in if \<not> (ipv4 env saddr \<and> is_private_ip env saddr) then ([], d)
            else if was_ip_seen_in_connlog_before d saddr then ([], d)
            else
              (let d' = mark_srcip_as_seen_in_connlog saddr d
               in case get_ip_of_mac d' smac of
                    None \<Rightarrow> ([], d')
                  | Some old_ip_list \<Rightarrow>
                      (case first_ipv4 env old_ip_list of
                         None \<Rightarrow> ([], d')
                       | Some old_ip \<Rightarrow>
                           if old_ip \<noteq> saddr
                           then ([Device_changing_ips smac old_ip profileid twid uid timestamp], d')
                           else ([], d')))))"

text \<open>
  The condition as the specification words it: the flow type is \<^verbatim>\<open>conn\<close>, the MAC is
  present, the source address is a private IPv4 address not seen before, and the store
  binds the MAC to a different private IPv4 address.
\<close>

definition spec_device_changing_ips :: "addr_env \<Rightarrow> string \<Rightarrow> string \<Rightarrow> string \<Rightarrow> mac_db \<Rightarrow> bool" where
  "spec_device_changing_ips env flow_type smac profileid d =
     (flow_type = ''conn'' \<and> smac \<noteq> [] \<and>
      ipv4 env (split_last profileid) \<and> is_private_ip env (split_last profileid) \<and>
      split_last profileid \<notin> seen_in_connlog d \<and>
      (case get_ip_of_mac d smac of
         None \<Rightarrow> False
       | Some ips \<Rightarrow>
           list_ex (\<lambda>ip. ipv4 env ip \<and> is_private_ip env ip \<and> ip \<noteq> split_last profileid) ips))"

section \<open>Connection to multiple ports\<close>

text \<open>
  One entry of the aggregate that \<^verbatim>\<open>self.db.get_data_from_profile_tw\<close> returns for an
  address: the keys of its \<^verbatim>\<open>"dstports"\<close> and its \<^verbatim>\<open>"uid"\<close> list.
\<close>

record ip_aggregate =
  dstports :: "string list"
  uid_list :: "string list"

text \<open>
  The store as the check reads it, taken as parameters: \<^verbatim>\<open>get_port_info\<close> of a
  \<^verbatim>\<open>port/proto\<close> string, and \<^verbatim>\<open>get_data_from_profile_tw\<close> with its arguments
  profileid, twid, direction, state, protocol, role and type of data, giving a dict from
  address to entry.
\<close>

record ports_env =
  get_port_info :: "string \<Rightarrow> string option"
  get_data_from_profile_tw ::
    "string \<Rightarrow> string \<Rightarrow> string \<Rightarrow> string \<Rightarrow> string \<Rightarrow> string \<Rightarrow> string \<Rightarrow> (string \<times> ip_aggregate) list"

definition detect_connection_to_multiple_ports ::
  "ports_env \<Rightarrow> string \<Rightarrow> string \<Rightarrow> string \<Rightarrow> string \<Rightarrow> string \<Rightarrow> int \<Rightarrow> timestamp \<Rightarrow> string \<Rightarrow> string
     \<Rightarrow> py_error + evidence list" where
  "detect_connection_to_multiple_ports env saddr daddr proto state appproto dport timestamp profileid twid =
     (if proto \<noteq> ''tcp'' \<or> state \<noteq> ''Established'' then Inr []
      else
        (let dport_name =
               (if appproto \<noteq> [] then Some appproto
                else get_port_info env (str_int dport @ ''/'' @ proto))
         in if truthy dport_name then Inr []
            else
              (case split_1 profileid of
                 Inl e \<Rightarrow> Inl e
               | Inr ip1 \<Rightarrow>
                   if ip1 = saddr then
                     (let daddrs = get_data_from_profile_tw env profileid twid
                                     ''Dst'' ''Established'' ''TCP'' ''Client'' ''IPs''
                      in case map_of daddrs daddr of
                           None \<Rightarrow> Inr []
                         | Some entry \<Rightarrow>
                             if length (dstports entry) \<le> 1 then Inr []
                             else Inr [Connection_to_multiple_ports profileid twid (uid_list entry)
                                         timestamp (dstports entry) daddr (split_last profileid)])
                   else if split_last profileid = daddr then
                     (let saddrs = get_data_from_profile_tw env profileid twid
                                     ''Src'' ''Established'' ''TCP'' ''Server'' ''IPs''
                      in case map_of saddrs saddr of
                           None \<Rightarrow> Inl KeyError
                         | Some entry \<Rightarrow>
                             if length (dstports entry) \<le> 1 then Inr []
                             else Inr [Connection_to_multiple_ports profileid twid (uid_list entry)
                                         timestamp (dstports entry) (split_last profileid) daddr])
                   else Inr [])))"

section \<open>DNS analyzer\<close>

text \<open>
  \<^verbatim>\<open>self.nxdomains\<close>: for a profile and time window (the tests key it by
  \<^verbatim>\<open>f"{profileid}_{twid}"\<close>), the domains and the uids accumulated.
\<close>

type_synonym nxdomains = "(string \<times> (string list \<times> string list)) list"

definition nxdomains_key :: "string \<Rightarrow> string \<Rightarrow> string" where
  "nxdomains_key profileid twid = profileid @ ''_'' @ twid"

text \<open>
  Modelled from the spec: \<^verbatim>\<open>detect_dga\<close> of \<^verbatim>\<open>modules/flowalerts/dns.py\<close>, a file
  that is not part of the sources at hand (only its tests are). The spec: skip ARPA/local
  queries and whitelisted domains; on \<^verbatim>\<open>rcode == NXDOMAIN\<close>, append (domain, uid) to
  the counter of (profile, timewindow); once the accumulated count reaches a threshold,
  emit evidence carrying all accumulated uids and reset the counter to empty; below the
  threshold, no evidence. The whitelist test and the threshold are parameters; the
  evidence carries what the test \<^verbatim>\<open>test_detect_dga_alert\<close> expects: the count, the
  timestamp, profile, time window and the uids.
\<close>

definition detect_dga ::
  "(string \<Rightarrow> bool) \<Rightarrow> nat \<Rightarrow> string \<Rightarrow> string \<Rightarrow> timestamp \<Rightarrow> string \<Rightarrow> string \<Rightarrow> string \<Rightarrow> nxdomains
     \<Rightarrow> evidence list \<times> nxdomains" where
  "detect_dga is_whitelisted nxdomains_threshold rcode_name query timestamp profileid twid uid nx =
     (if rcode_name \<noteq> ''NXDOMAIN'' \<or> endswith query ''.arpa'' \<or> endswith query ''.local''
         \<or> is_whitelisted query then ([], nx)
      else
        (let key = nxdomains_key profileid twid;
             (queries, uids) = (case map_of nx key of None \<Rightarrow> ([], []) | Some qu \<Rightarrow> qu);
             queries' = queries @ [query];
             uids' = uids @ [uid]
         in if length queries' \<ge> nxdomains_threshold
            then ([Dga (int (length queries')) timestamp profileid twid uids'],
                  AList.update key ([], []) nx)
            else ([], AList.update key (queries', uids') nx)))"

text \<open>A DNS transaction as \<^const>\<open>detect_dga\<close> receives it: rcode, query, uid.\<close>

type_synonym dns_txn = "string \<times> string \<times> string"

definition countable_nxdomain :: "(string \<Rightarrow> bool) \<Rightarrow> dns_txn \<Rightarrow> bool" where
  "countable_nxdomain is_whitelisted t =
     (case t of (rcode_name, query, uid) \<Rightarrow>
        rcode_name = ''NXDOMAIN'' \<and> \<not> endswith query ''.arpa'' \<and> \<not> endswith query ''.local''
        \<and> \<not> is_whitelisted query)"

definition txn_query :: "dns_txn \<Rightarrow> string" where
  "txn_query t = (case t of (rcode_name, query, uid) \<Rightarrow> query)"

definition txn_uid :: "dns_txn \<Rightarrow> string" where
  "txn_uid t = (case t of (rcode_name, query, uid) \<Rightarrow> uid)"

text \<open>
  \<^const>\<open>detect_dga\<close> over a sequence of transactions of one profile and time window: the
  evidence of every call, in order, and the final counter.
\<close>

fun dga_run ::
  "(string \<Rightarrow> bool) \<Rightarrow> nat \<Rightarrow> timestamp \<Rightarrow> string \<Rightarrow> string \<Rightarrow> dns_txn list \<Rightarrow> nxdomains
     \<Rightarrow> evidence list list \<times> nxdomains" where
  "dga_run is_whitelisted threshold timestamp profileid twid [] nx = ([], nx)"
| "dga_run is_whitelisted threshold timestamp profileid twid ((rcode_name, query, uid) # ts) nx =
     (let (ev, nx') = detect_dga is_whitelisted threshold rcode_name query timestamp profileid twid uid nx;
          (evs, nx'') = dga_run is_whitelisted threshold timestamp profileid twid ts nx'
      in (ev # evs, nx''))"

text \<open>
  Modelled from the spec: \<^verbatim>\<open>check_invalid_dns_answers\<close> of
  \<^verbatim>\<open>modules/flowalerts/dns.py\<close>, not part of the sources at hand. The spec: any answer
  that is a loopback/invalid address (except when the query itself is \<^verbatim>\<open>localhost\<close>)
  is evidence-worthy and also triggers removal of that cached resolution from the external
  store. Which answers are invalid is a parameter; the store's cache of resolutions is a
  map from the answer to what is cached for it, and \<^verbatim>\<open>delete_dns_resolution\<close> removes
  the entry. The evidence carries what the test
  \<^verbatim>\<open>test_check_invalid_dns_answers_with_invalid_answer\<close> expects.
\<close>

type_synonym dns_cache = "string \<Rightarrow> string list option"

definition delete_dns_resolution :: "string \<Rightarrow> dns_cache \<Rightarrow> dns_cache" where
  "delete_dns_resolution answer cache = cache(answer := None)"

fun check_invalid_dns_answers ::
  "(string \<Rightarrow> bool) \<Rightarrow> string \<Rightarrow> string list \<Rightarrow> string \<Rightarrow> string \<Rightarrow> timestamp \<Rightarrow> string \<Rightarrow> dns_cache
     \<Rightarrow> evidence list \<times> dns_cache" where
  "check_invalid_dns_answers is_invalid domain [] profileid twid timestamp uid cache = ([], cache)"
| "check_invalid_dns_answers is_invalid domain (answer # answers) profileid twid timestamp uid cache =
     (if is_invalid answer \<and> domain \<noteq> ''localhost'' then
        (let (evs, cache') = check_invalid_dns_answers is_invalid domain answers profileid twid
                               timestamp uid (delete_dns_resolution answer cache)
         in (Invalid_dns_answer domain answer profileid twid timestamp uid # evs, cache'))
      else check_invalid_dns_answers is_invalid domain answers profileid twid timestamp uid cache)"

section \<open>Example inputs\<close>

text \<open>
  Concrete collaborators for the examples below. No address has stored data, the supported
  organizations are five, and the only organization test that succeeds is the ASN test of
  \<^verbatim>\<open>157.240.1.35\<close> for \<^verbatim>\<open>facebook\<close>, the fourth in the list.
\<close>

definition example_org_env :: org_env where
  "example_org_env =
     \<lparr>get_ip_info = (\<lambda>_. None),
      supported_orgs = [''google'', ''microsoft'', ''apple'', ''facebook'', ''twitter''],
      is_ip_asn_in_org_asn = (\<lambda>ip org. ip = ''157.240.1.35'' \<and> org = ''facebook''),
      is_domain_in_org = (\<lambda>_ _. False),
      is_ip_in_org = (\<lambda>_ _. False)\<rparr>"

text \<open>
  A run on a capture file: nothing is ignored, no interface is read, and the store has no
  DNS resolution and no other-version address for anything.
\<close>

definition example_dns_env :: dns_env where
  "example_dns_env =
     \<lparr>is_ignored_ip = (\<lambda>_. False), client_ips = [], get_input_type = ''pcap'',
      is_doh_server = (\<lambda>_. False), is_dns_server = (\<lambda>_. False),
      interface_in_argv = False, is_growing_zeek_dir = False, our_ips = [],
      minutes_since_start = 0, is_ip_resolved = (\<lambda>_ _. False),
      get_the_other_ip_version = (\<lambda>_. None),
      get_dns_resolution = (\<lambda>_. Resolution_dict None),
      orgs = example_org_env\<rparr>"

text \<open>The same run once the profile's IPv6 address has resolved the destination.\<close>

definition example_dns_env_other_version :: dns_env where
  "example_dns_env_other_version =
     example_dns_env
       \<lparr>get_the_other_ip_version := (\<lambda>_. Some ''2001:db8::5''),
        get_dns_resolution := (\<lambda>_. Resolution_dict (Some [''2001:db8::5'']))\<rparr>"

text \<open>The analyzer after the first check of the flow \<^verbatim>\<open>CuidA\<close>: its uid waits for the timer.\<close>

definition example_pending :: conn_state where
  "example_pending =
     \<lparr>connections_checked_in_conn_dns_timer_thread = [''CuidA''], timers = [], evidence_set = []\<rparr>"

text \<open>Three IPv4 addresses, two of them private.\<close>

definition example_addr_env :: addr_env where
  "example_addr_env =
     \<lparr>ipv4 = (\<lambda>s. s \<in> {''192.168.1.5'', ''192.168.1.9'', ''8.8.8.8''}),
      is_private_ip = (\<lambda>s. s \<in> {''192.168.1.5'', ''192.168.1.9''})\<rparr>"

text \<open>A store that has never seen an address and binds every MAC to the given addresses.\<close>

definition example_mac_db :: "string list \<Rightarrow> mac_db" where
  "example_mac_db ips = \<lparr>seen_in_connlog = {}, get_ip_of_mac = (\<lambda>_. Some ips)\<rparr>"

text \<open>A store without port information and without any aggregate.\<close>

definition example_ports_env :: ports_env where
  "example_ports_env =
     \<lparr>get_port_info = (\<lambda>_. None), get_data_from_profile_tw = (\<lambda>_ _ _ _ _ _ _. [])\<rparr>"

text \<open>A store with no reconnection table and no call made yet.\<close>

definition example_db :: db where
  "example_db = \<lparr>reconnections_of = (\<lambda>_. []), calls = []\<rparr>"

section \<open>Properties of the P2P heuristic\<close>

lemma p2p_run_snoc:
  "p2p_run (cs @ [(dport, proto, daddr)]) s = snd (is_p2p dport proto daddr (p2p_run cs s))"
  by (induction cs s rule: p2p_run.induct) simp_all

lemma hits_snoc:
  "hits (cs @ [c]) d = hits cs d + (if high_port_udp c \<and> conn_daddr c = d then 1 else 0)"
  by (simp add: hits_def)

lemma p2p_inv_step:
  assumes "p2p_inv cs s"
  shows "p2p_inv (cs @ [(dport, proto, daddr)]) (snd (is_p2p dport proto daddr s))"
proof (cases "lower proto = ''udp'' \<and> dport > 30000")
  case False
  then have "\<not> high_port_udp (dport, proto, daddr)" by (simp add: high_port_udp_def)
  with False assms show ?thesis
    by (auto simp: p2p_inv_def is_p2p_def hits_snoc)
next
  case True
  then have hp: "high_port_udp (dport, proto, daddr)" by (simp add: high_port_udp_def)
  have cd: "conn_daddr (dport, proto, daddr) = daddr" by (simp add: conn_daddr_def)
  from assms have dist: "distinct (map fst s)"
    and look: "\<And>d. map_of s d = (if hits cs d = 0 then None else Some (min 6 (int (hits cs d))))"
    by (simp_all add: p2p_inv_def)
  show ?thesis
  proof (cases "map_of s daddr")
    case None
    with look[of daddr] have h0: "hits cs daddr = 0" by (simp split: if_splits)
    from None True have st: "snd (is_p2p dport proto daddr s) = AList.update daddr 1 s"
      by (simp add: is_p2p_def Let_def)
    show ?thesis unfolding st p2p_inv_def
      using dist look h0 hp cd
      by (auto simp: distinct_update update_conv' hits_snoc)
  next
    case (Some c)
    with look[of daddr] have hpos: "hits cs daddr \<noteq> 0" and c: "c = min 6 (int (hits cs daddr))"
      by (simp_all split: if_splits)
    show ?thesis
    proof (cases "c \<ge> 6")
      case True
      with Some \<open>lower proto = ''udp'' \<and> dport > 30000\<close>
      have st: "snd (is_p2p dport proto daddr s) = s" by (simp add: is_p2p_def)
      show ?thesis unfolding st p2p_inv_def
        using dist look hpos c True hp cd
        by (auto simp: hits_snoc)
    next
      case False
      with Some \<open>lower proto = ''udp'' \<and> dport > 30000\<close>
      have st: "snd (is_p2p dport proto daddr s) = AList.update daddr (c + 1) s"
        by (simp add: is_p2p_def Let_def)
      show ?thesis unfolding st p2p_inv_def
        using dist look hpos c False hp cd
        by (auto simp: distinct_update update_conv' hits_snoc)
    qed
  qed
qed

lemma p2p_inv_run: "p2p_inv cs (p2p_run cs [])"
proof (induction cs rule: rev_induct)
  case Nil
  show ?case by (simp add: p2p_inv_def hits_def)
next
  case (snoc c cs)
  obtain dport proto daddr where c: "c = (dport, proto, daddr)" by (cases c) auto
  show ?case unfolding c p2p_run_snoc by (rule p2p_inv_step[OF snoc])
qed

lemma p2p_inv_length:
  assumes "p2p_inv cs s"
  shows "length s = card (conn_daddr ` {c \<in> set cs. high_port_udp c})"
proof -
  from assms have dist: "distinct (map fst s)"
    and look: "\<And>d. map_of s d = (if hits cs d = 0 then None else Some (min 6 (int (hits cs d))))"
    by (simp_all add: p2p_inv_def)
  have "length s = card (set (map fst s))" using distinct_card[OF dist] by simp
  also have "set (map fst s) = dom (map_of s)" by (simp add: dom_map_of_conv_image_fst)
  also have "dom (map_of s) = {d. hits cs d \<noteq> 0}" by (auto simp: look dom_def)
  also have "{d. hits cs d \<noteq> 0} = conn_daddr ` {c \<in> set cs. high_port_udp c}"
    by (auto simp: hits_def filter_empty_conv)
  finally show ?thesis .
qed

text \<open>
  What \<^const>\<open>is_p2p\<close> computes. After any sequence \<open>cs\<close> of high-port UDP connections
  processed from the empty counter, a further high-port UDP connection gets \<^const>\<open>True\<close>
  exactly when six of the connections \<open>cs\<close> already went to its destination, or the
  distinct destinations, this one included, number 5 or more. The two tests differ in what
  they count: the destinations are counted with the connection at hand, the hits without
  it, since \<^verbatim>\<open>self.p2p_daddrs[daddr] >= 6\<close> is tested before the increment.
\<close>

lemma is_p2p_classification:
  assumes "\<forall>c \<in> set cs. high_port_udp c"
  shows "(high_port_udp (dport, proto, daddr) \<longrightarrow>
           (fst (is_p2p dport proto daddr (p2p_run cs [])) \<longleftrightarrow>
              6 \<le> hits cs daddr \<or> 5 \<le> card (insert daddr (conn_daddr ` set cs)))) \<and>
         (\<not> high_port_udp (dport, proto, daddr) \<longrightarrow>
           is_p2p dport proto daddr (p2p_run cs []) = (False, p2p_run cs []))"
proof (intro conjI impI)
  assume "\<not> high_port_udp (dport, proto, daddr)"
  then show "is_p2p dport proto daddr (p2p_run cs []) = (False, p2p_run cs [])"
    by (auto simp: is_p2p_def high_port_udp_def)
next
  assume hp: "high_port_udp (dport, proto, daddr)"
  let ?s = "p2p_run cs []"
  let ?c = "(dport, proto, daddr)"
  have inv: "p2p_inv cs ?s" by (rule p2p_inv_run)
  have inv': "p2p_inv (cs @ [?c]) (snd (is_p2p dport proto daddr ?s))"
    by (rule p2p_inv_step[OF inv])
  have all: "{c \<in> set (cs @ [?c]). high_port_udp c} = insert ?c (set cs)"
    using assms hp by auto
  have len': "length (snd (is_p2p dport proto daddr ?s)) = card (insert daddr (conn_daddr ` set cs))"
    unfolding p2p_inv_length[OF inv'] all by (simp add: conn_daddr_def)
  from inv have look: "map_of ?s daddr =
      (if hits cs daddr = 0 then None else Some (min 6 (int (hits cs daddr))))"
    by (simp add: p2p_inv_def)
  from hp have guard: "lower proto = ''udp'' \<and> dport > 30000" by (simp add: high_port_udp_def)
  show "fst (is_p2p dport proto daddr ?s) \<longleftrightarrow>
          6 \<le> hits cs daddr \<or> 5 \<le> card (insert daddr (conn_daddr ` set cs))"
  proof (cases "6 \<le> hits cs daddr")
    case True
    with look guard show ?thesis by (simp add: is_p2p_def)
  next
    case False
    with look guard have "fst (is_p2p dport proto daddr ?s) \<longleftrightarrow>
        5 \<le> length (snd (is_p2p dport proto daddr ?s))"
      by (auto simp: is_p2p_def Let_def)
    with False len' show ?thesis by simp
  qed
qed

text \<open>
  C5. Six UDP connections to one address, each to another port above 30000, processed from
  the empty counter. The sixth brings the address to 6 hits, which the counter then holds,
  and \<^const>\<open>is_p2p\<close> answers \<^const>\<open>False\<close> for it; only the seventh connection gets
  \<^const>\<open>True\<close>. The docstring defines P2P as connecting to one address on more than 5
  such ports.
\<close>

theorem sixth_hit_not_classified_p2p:
  "is_p2p 40006 ''udp'' ''10.0.0.9''
     (p2p_run [(40001, ''udp'', ''10.0.0.9''), (40002, ''udp'', ''10.0.0.9''),
               (40003, ''udp'', ''10.0.0.9''), (40004, ''udp'', ''10.0.0.9''),
               (40005, ''udp'', ''10.0.0.9'')] [])
     = (False, [(''10.0.0.9'', 6)]) \<and>
   is_p2p 40007 ''udp'' ''10.0.0.9'' [(''10.0.0.9'', 6)] = (True, [(''10.0.0.9'', 6)])"
  by code_simp

section \<open>Properties of the reconnection check\<close>

lemma check_reconnection_not_rej:
  "origstate \<noteq> ''REJ'' \<Longrightarrow>
   check_multiple_reconnection_attempts origstate saddr daddr dport uid profileid twid timestamp d
     = Inr ([], d)"
  by (simp add: check_multiple_reconnection_attempts_def)

lemma check_reconnection_below:
  "stored_count d profileid twid (reconnection_key saddr daddr dport) + 1 < 5 \<Longrightarrow>
   check_multiple_reconnection_attempts ''REJ'' saddr daddr dport uid profileid twid timestamp d
     = Inr ([], d\<lparr>calls := calls d @ [Call_get_reconnections_for_tw profileid twid]\<rparr>)"
  by (auto simp: check_multiple_reconnection_attempts_def get_reconnections_for_tw_def
        count_reconnection_def stored_count_def Let_def split: option.splits)

lemma check_reconnection_fires:
  "5 \<le> stored_count d profileid twid (reconnection_key saddr daddr dport) + 1 \<Longrightarrow>
   \<exists>ev table.
     check_multiple_reconnection_attempts ''REJ'' saddr daddr dport uid profileid twid timestamp d
       = Inr ([ev],
              d\<lparr>reconnections_of := (reconnections_of d)((profileid, twid) := table),
                calls := calls d @ [Call_get_reconnections_for_tw profileid twid,
                                    Call_setReconnections profileid twid table]\<rparr>) \<and>
     map_of table (reconnection_key saddr daddr dport) = Some (0, [])"
  by (auto simp: check_multiple_reconnection_attempts_def get_reconnections_for_tw_def
        setReconnections_def update_conv' count_reconnection_def stored_count_def Let_def
        split: option.splits)

text \<open>
  From a store whose table for the profile and time window is empty, no sequence of flows
  ever sets evidence: every rejected flow reads the empty table, counts 1 and returns
  before the write, so the next flow reads the empty table again.
\<close>

lemma reconnection_run_empty_table:
  "reconnections_of d (profileid, twid) = [] \<Longrightarrow>
   \<exists>d'. reconnection_run profileid twid timestamp fs d = Inr (replicate (length fs) [], d') \<and>
        reconnections_of d' = reconnections_of d"
proof (induction fs arbitrary: d)
  case Nil
  then show ?case by simp
next
  case (Cons f fs)
  obtain origstate saddr daddr dport uid where f: "f = (origstate, saddr, daddr, dport, uid)"
    by (cases f) auto
  let ?d1 = "d\<lparr>calls := calls d @ [Call_get_reconnections_for_tw profileid twid]\<rparr>"
  from Cons.prems
  have "stored_count d profileid twid (reconnection_key saddr daddr dport) + 1 < 5"
    by (simp add: stored_count_def)
  then have rej: "check_multiple_reconnection_attempts ''REJ'' saddr daddr dport uid profileid twid
                    timestamp d = Inr ([], ?d1)"
    by (rule check_reconnection_below)
  show ?case
  proof (cases "origstate = ''REJ''")
    case True
    from Cons.prems have "reconnections_of ?d1 (profileid, twid) = []" by simp
    from Cons.IH[OF this] obtain d' where
      "reconnection_run profileid twid timestamp fs ?d1 = Inr (replicate (length fs) [], d')"
      "reconnections_of d' = reconnections_of ?d1" by blast
    with True rej show ?thesis unfolding f by simp
  next
    case False
    from Cons.IH[OF Cons.prems] obtain d' where
      "reconnection_run profileid twid timestamp fs d = Inr (replicate (length fs) [], d')"
      "reconnections_of d' = reconnections_of d" by blast
    with check_reconnection_not_rej[OF False] show ?thesis unfolding f by simp
  qed
qed

text \<open>
  C1. Five rejected flows with the same source, destination and port, processed one after
  the other from a store with no reconnection table: none of the five calls sets evidence,
  the fifth included, and the store still holds no table. Each call reads the table and
  returns at \<^verbatim>\<open>if reconnections < 5: return\<close>, before \<^verbatim>\<open>setReconnections\<close>.
\<close>

theorem five_rejected_flows_no_evidence:
  "reconnection_run ''profile_10.0.0.1'' ''timewindow1'' 0
     [(''REJ'', ''10.0.0.1'', ''10.0.0.2'', 80, ''uid1''),
      (''REJ'', ''10.0.0.1'', ''10.0.0.2'', 80, ''uid2''),
      (''REJ'', ''10.0.0.1'', ''10.0.0.2'', 80, ''uid3''),
      (''REJ'', ''10.0.0.1'', ''10.0.0.2'', 80, ''uid4''),
      (''REJ'', ''10.0.0.1'', ''10.0.0.2'', 80, ''uid5'')]
     example_db
   = Inr ([[], [], [], [], []],
          \<lparr>reconnections_of = (\<lambda>_. []),
           calls = replicate 5 (Call_get_reconnections_for_tw ''profile_10.0.0.1'' ''timewindow1'')\<rparr>)"
  by (simp add: example_db_def check_multiple_reconnection_attempts_def
        get_reconnections_for_tw_def count_reconnection_def Let_def numeral_eq_Suc)

text \<open>
  C10. The check writes the table back only on the call that fires. A flow whose origstate
  is not \<^verbatim>\<open>REJ\<close> leaves the store as it is, with no call made to it. A rejected flow
  whose count, one more than the stored one, stays below 5 leaves the stored tables as they
  are: the only call is the read. A rejected flow whose count reaches 5 sets one evidence
  and makes two calls, the read and one \<^verbatim>\<open>setReconnections\<close> with a table in which
  the key is back to \<open>(0, [])\<close>.
\<close>

theorem reconnections_written_only_when_fired:
  "(origstate \<noteq> ''REJ'' \<longrightarrow>
      check_multiple_reconnection_attempts origstate saddr daddr dport uid profileid twid timestamp d
        = Inr ([], d)) \<and>
   (origstate = ''REJ'' \<and> stored_count d profileid twid (reconnection_key saddr daddr dport) + 1 < 5 \<longrightarrow>
      check_multiple_reconnection_attempts origstate saddr daddr dport uid profileid twid timestamp d
        = Inr ([], d\<lparr>calls := calls d @ [Call_get_reconnections_for_tw profileid twid]\<rparr>)) \<and>
   (origstate = ''REJ'' \<and> 5 \<le> stored_count d profileid twid (reconnection_key saddr daddr dport) + 1 \<longrightarrow>
      (\<exists>ev table.
         check_multiple_reconnection_attempts origstate saddr daddr dport uid profileid twid timestamp d
           = Inr ([ev],
                  d\<lparr>reconnections_of := (reconnections_of d)((profileid, twid) := table),
                    calls := calls d @ [Call_get_reconnections_for_tw profileid twid,
                                        Call_setReconnections profileid twid table]\<rparr>) \<and>
         map_of table (reconnection_key saddr daddr dport) = Some (0, [])))"
proof (intro conjI impI)
  assume "origstate \<noteq> ''REJ''"
  then show "check_multiple_reconnection_attempts origstate saddr daddr dport uid profileid twid
               timestamp d = Inr ([], d)"
    by (rule check_reconnection_not_rej)
next
  assume a: "origstate = ''REJ'' \<and>
             stored_count d profileid twid (reconnection_key saddr daddr dport) + 1 < 5"
  from a have "stored_count d profileid twid (reconnection_key saddr daddr dport) + 1 < 5" ..
  from check_reconnection_below[OF this, of uid timestamp] a
  show "check_multiple_reconnection_attempts origstate saddr daddr dport uid profileid twid
          timestamp d
        = Inr ([], d\<lparr>calls := calls d @ [Call_get_reconnections_for_tw profileid twid]\<rparr>)"
    by simp
next
  assume a: "origstate = ''REJ'' \<and>
             5 \<le> stored_count d profileid twid (reconnection_key saddr daddr dport) + 1"
  from a have "5 \<le> stored_count d profileid twid (reconnection_key saddr daddr dport) + 1" ..
  from check_reconnection_fires[OF this, of uid timestamp] a
  show "\<exists>ev table.
         check_multiple_reconnection_attempts origstate saddr daddr dport uid profileid twid timestamp d
           = Inr ([ev],
                  d\<lparr>reconnections_of := (reconnections_of d)((profileid, twid) := table),
                    calls := calls d @ [Call_get_reconnections_for_tw profileid twid,
                                        Call_setReconnections profileid twid table]\<rparr>) \<and>
         map_of table (reconnection_key saddr daddr dport) = Some (0, [])"
    by simp
qed

theorem reconnections_written_only_when_fired_witness:
  "check_multiple_reconnection_attempts ''S0'' ''10.0.0.1'' ''10.0.0.2'' 80 ''uid1''
       ''profile_10.0.0.1'' ''timewindow1'' 0 example_db
     = Inr ([], example_db) \<and>
   check_multiple_reconnection_attempts ''REJ'' ''10.0.0.1'' ''10.0.0.2'' 80 ''uid1''
       ''profile_10.0.0.1'' ''timewindow1'' 0 example_db
     = Inr ([], example_db\<lparr>calls := [Call_get_reconnections_for_tw ''profile_10.0.0.1'' ''timewindow1'']\<rparr>) \<and>
   (\<exists>ev table.
      check_multiple_reconnection_attempts ''REJ'' ''10.0.0.1'' ''10.0.0.2'' 80 ''uid5''
          ''profile_10.0.0.1'' ''timewindow1'' 0
          (example_db\<lparr>reconnections_of :=
             (\<lambda>_. [(reconnection_key ''10.0.0.1'' ''10.0.0.2'' 80,
                     (4, [''uid1'', ''uid2'', ''uid3'', ''uid4'']))])\<rparr>)
        = Inr ([ev],
               \<lparr>reconnections_of =
                  (\<lambda>_. [(reconnection_key ''10.0.0.1'' ''10.0.0.2'' 80,
                          (4, [''uid1'', ''uid2'', ''uid3'', ''uid4'']))])
                    ((''profile_10.0.0.1'', ''timewindow1'') := table),
                calls = [Call_get_reconnections_for_tw ''profile_10.0.0.1'' ''timewindow1'',
                         Call_setReconnections ''profile_10.0.0.1'' ''timewindow1'' table]\<rparr>) \<and>
      map_of table (reconnection_key ''10.0.0.1'' ''10.0.0.2'' 80) = Some (0, []))"
proof -
  let ?d4 = "example_db\<lparr>reconnections_of :=
             (\<lambda>_. [(reconnection_key ''10.0.0.1'' ''10.0.0.2'' 80,
                     (4, [''uid1'', ''uid2'', ''uid3'', ''uid4'']))])\<rparr>"
  have a: "''S0'' \<noteq> ''REJ''" by simp
  have b: "stored_count example_db ''profile_10.0.0.1'' ''timewindow1''
             (reconnection_key ''10.0.0.1'' ''10.0.0.2'' 80) + 1 < 5"
    by (simp add: stored_count_def example_db_def)
  have c: "5 \<le> stored_count ?d4 ''profile_10.0.0.1'' ''timewindow1''
                  (reconnection_key ''10.0.0.1'' ''10.0.0.2'' 80) + 1"
    by (simp add: stored_count_def example_db_def)
  from a reconnections_written_only_when_fired
         [of "''S0''" "''10.0.0.1''" "''10.0.0.2''" 80 "''uid1''" "''profile_10.0.0.1''"
             "''timewindow1''" 0 example_db]
  have 1: "check_multiple_reconnection_attempts ''S0'' ''10.0.0.1'' ''10.0.0.2'' 80 ''uid1''
       ''profile_10.0.0.1'' ''timewindow1'' 0 example_db = Inr ([], example_db)"
    by simp
  from b reconnections_written_only_when_fired
         [of "''REJ''" "''10.0.0.1''" "''10.0.0.2''" 80 "''uid1''" "''profile_10.0.0.1''"
             "''timewindow1''" 0 example_db]
  have 2: "check_multiple_reconnection_attempts ''REJ'' ''10.0.0.1'' ''10.0.0.2'' 80 ''uid1''
       ''profile_10.0.0.1'' ''timewindow1'' 0 example_db
     = Inr ([], example_db\<lparr>calls := [Call_get_reconnections_for_tw ''profile_10.0.0.1'' ''timewindow1'']\<rparr>)"
    by (simp add: example_db_def)
  from c reconnections_written_only_when_fired
         [of "''REJ''" "''10.0.0.1''" "''10.0.0.2''" 80 "''uid5''" "''profile_10.0.0.1''"
             "''timewindow1''" 0 ?d4]
  have 3: "\<exists>ev table.
      check_multiple_reconnection_attempts ''REJ'' ''10.0.0.1'' ''10.0.0.2'' 80 ''uid5''
          ''profile_10.0.0.1'' ''timewindow1'' 0 ?d4
        = Inr ([ev],
               \<lparr>reconnections_of =
                  (\<lambda>_. [(reconnection_key ''10.0.0.1'' ''10.0.0.2'' 80,
                          (4, [''uid1'', ''uid2'', ''uid3'', ''uid4'']))])
                    ((''profile_10.0.0.1'', ''timewindow1'') := table),
                calls = [Call_get_reconnections_for_tw ''profile_10.0.0.1'' ''timewindow1'',
                         Call_setReconnections ''profile_10.0.0.1'' ''timewindow1'' table]\<rparr>) \<and>
      map_of table (reconnection_key ''10.0.0.1'' ''10.0.0.2'' 80) = Some (0, [])"
    by (simp add: example_db_def)
  show ?thesis by (intro conjI) (rule 1, rule 2, rule 3)
qed

section \<open>Properties of the well-known-organization test\<close>

lemma domains_loop_two:
  "domains_loop env ip org [rdns, sni] =
     (is_ip_asn_in_org_asn env ip org \<or> domain_matches env rdns org \<or>
      domain_matches env sni org \<or> is_ip_in_org env ip org)"
  by auto




section \<open>Properties of the connection-without-DNS check\<close>

text \<open>
  Whatever the state, a call made while the destination is resolved, while the profile's
  other address has resolved it, or while \<^const>\<open>is_well_known_org\<close> answers
  \<^const>\<open>True\<close>, sets no evidence.
\<close>

lemma no_evidence_when_resolved:
  assumes "is_ip_resolved env daddr 24
           \<or> check_if_resolution_was_made_by_different_version env profileid daddr
           \<or> is_well_known_org (orgs env) daddr = Inr (Some True)"
      and "check_connection_without_dns_resolution env flow_type appproto daddr twid profileid
             timestamp uid st = Inr (r, st')"
  shows "evidence_set st' = evidence_set st"
  using assms
  by (auto simp: check_connection_without_dns_resolution_def split: if_splits)

text \<open>
  C2, as stated, fails. A re-check that ends because the profile's other address resolved
  the destination returns with the uid still in the list; and once a re-check has set the
  evidence and removed the uid, a later call with the same uid is taken for a first check:
  it puts the uid back in the list and starts a new timer.
\<close>

theorem pending_uid_kept_when_resolved:
  "''CuidA'' \<in> set (connections_checked_in_conn_dns_timer_thread example_pending) \<and>
   check_if_resolution_was_made_by_different_version example_dns_env_other_version
     ''profile_192.168.1.5'' ''203.0.113.7'' \<and>
   check_connection_without_dns_resolution example_dns_env_other_version ''conn'' ''''
       ''203.0.113.7'' ''timewindow1'' ''profile_192.168.1.5'' 0 ''CuidA'' example_pending
     = Inr (Some False, example_pending) \<and>
   check_connection_without_dns_resolution example_dns_env ''conn'' ''''
       ''203.0.113.7'' ''timewindow1'' ''profile_192.168.1.5'' 0 ''CuidA''
       \<lparr>connections_checked_in_conn_dns_timer_thread = [], timers = [],
        evidence_set = [Conn_without_dns ''203.0.113.7'' 0 ''profile_192.168.1.5'' ''timewindow1'' ''CuidA'']\<rparr>
     = Inr (None,
         \<lparr>connections_checked_in_conn_dns_timer_thread = [''CuidA''],
          timers = [(15, (''conn'', '''', ''203.0.113.7'', ''timewindow1'', ''profile_192.168.1.5'', 0, ''CuidA''))],
          evidence_set = [Conn_without_dns ''203.0.113.7'' 0 ''profile_192.168.1.5'' ''timewindow1'' ''CuidA'']\<rparr>)"
  by (simp add: example_pending_def example_dns_env_other_version_def example_dns_env_def
        example_org_env_def check_connection_without_dns_resolution_def
        should_ignore_conn_without_dns_def check_if_resolution_was_made_by_different_version_def)

text \<open>
  C2, amended. The list of pending uids stays free of duplicates. For a uid in the list, a
  call that returns removes it exactly when that call sets the evidence for it; otherwise
  the call changes nothing, the list included. For a uid not in the list (a first check, or
  a uid whose evidence was set before), the call sets no evidence, and either changes
  nothing or puts the uid in the list and starts one timer for it.
\<close>

theorem pending_removed_only_with_evidence:
  assumes "distinct (connections_checked_in_conn_dns_timer_thread st)"
      and "check_connection_without_dns_resolution env flow_type appproto daddr twid profileid
             timestamp uid st = Inr (r, st')"
  shows "distinct (connections_checked_in_conn_dns_timer_thread st') \<and>
     (if uid \<in> set (connections_checked_in_conn_dns_timer_thread st)
      then (uid \<notin> set (connections_checked_in_conn_dns_timer_thread st')
              \<longleftrightarrow> evidence_set st' =
                    evidence_set st @ [Conn_without_dns daddr timestamp profileid twid uid]) \<and>
           (uid \<in> set (connections_checked_in_conn_dns_timer_thread st')
              \<longleftrightarrow> st' = st)
      else evidence_set st' = evidence_set st \<and>
           (st' = st \<or>
            st' = st\<lparr>connections_checked_in_conn_dns_timer_thread :=
                        connections_checked_in_conn_dns_timer_thread st @ [uid],
                      timers := timers st @
                        [(15, (flow_type, appproto, daddr, twid, profileid, timestamp, uid))]\<rparr>))"
  using assms
  by (auto simp: check_connection_without_dns_resolution_def
        split: if_splits sum.splits option.splits bool.splits)

theorem pending_removed_only_with_evidence_witness:
  "check_connection_without_dns_resolution example_dns_env ''conn'' ''''
       ''203.0.113.7'' ''timewindow1'' ''profile_192.168.1.5'' 0 ''CuidA'' example_pending
     = Inr (None,
         \<lparr>connections_checked_in_conn_dns_timer_thread = [], timers = [],
          evidence_set = [Conn_without_dns ''203.0.113.7'' 0 ''profile_192.168.1.5'' ''timewindow1'' ''CuidA'']\<rparr>) \<and>
   distinct (connections_checked_in_conn_dns_timer_thread example_pending) \<and>
   ''CuidA'' \<in> set (connections_checked_in_conn_dns_timer_thread example_pending) \<and>
   ''CuidA'' \<notin> set (connections_checked_in_conn_dns_timer_thread
      \<lparr>connections_checked_in_conn_dns_timer_thread = [], timers = [],
       evidence_set = [Conn_without_dns ''203.0.113.7'' 0 ''profile_192.168.1.5'' ''timewindow1'' ''CuidA'']\<rparr>)"
proof -
  let ?st' = "\<lparr>connections_checked_in_conn_dns_timer_thread = [], timers = [],
     evidence_set = [Conn_without_dns ''203.0.113.7'' 0 ''profile_192.168.1.5'' ''timewindow1'' ''CuidA'']\<rparr>"
  have run: "check_connection_without_dns_resolution example_dns_env ''conn'' ''''
       ''203.0.113.7'' ''timewindow1'' ''profile_192.168.1.5'' 0 ''CuidA'' example_pending
     = Inr (None, ?st')"
    by (simp add: example_pending_def example_dns_env_def example_org_env_def
          check_connection_without_dns_resolution_def should_ignore_conn_without_dns_def
          check_if_resolution_was_made_by_different_version_def
          is_well_known_org_def sni_of_def rdns_of_def domain_matches_def)
  have dist: "distinct (connections_checked_in_conn_dns_timer_thread example_pending)"
    by (simp add: example_pending_def)
  have mem: "''CuidA'' \<in> set (connections_checked_in_conn_dns_timer_thread example_pending)"
    by (simp add: example_pending_def)
  have ev: "evidence_set ?st' = evidence_set example_pending @
              [Conn_without_dns ''203.0.113.7'' 0 ''profile_192.168.1.5'' ''timewindow1'' ''CuidA'']"
    by (simp add: example_pending_def)
  from pending_removed_only_with_evidence[OF dist run] mem ev
  have "''CuidA'' \<notin> set (connections_checked_in_conn_dns_timer_thread ?st')"
    by simp
  with run dist mem show ?thesis by simp
qed

text \<open>
  C3. The flow \<^verbatim>\<open>CuidA\<close> waits in the list and its destination \<^verbatim>\<open>157.240.1.35\<close>
  matches a well-known organization, the fourth of the supported ones, by its ASN. The
  re-check sets the evidence all the same: \<^const>\<open>is_well_known_org\<close> has tested the
  first organization only.
\<close>

theorem recheck_evidence_despite_later_org:
  "''CuidA'' \<in> set (connections_checked_in_conn_dns_timer_thread example_pending) \<and>
   matches_well_known_org (orgs example_dns_env) ''157.240.1.35'' \<and>
   check_connection_without_dns_resolution example_dns_env ''conn'' '''' ''157.240.1.35''
       ''timewindow1'' ''profile_192.168.1.5'' 0 ''CuidA'' example_pending
     = Inr (None,
         \<lparr>connections_checked_in_conn_dns_timer_thread = [], timers = [],
          evidence_set = [Conn_without_dns ''157.240.1.35'' 0 ''profile_192.168.1.5'' ''timewindow1'' ''CuidA'']\<rparr>)"
  by (simp add: example_pending_def example_dns_env_def example_org_env_def
        matches_well_known_org_def matches_org_def
        check_connection_without_dns_resolution_def should_ignore_conn_without_dns_def
        check_if_resolution_was_made_by_different_version_def
        is_well_known_org_def sni_of_def rdns_of_def domain_matches_def)

section \<open>Properties of the device-changing-IPs check\<close>

lemma find_Some_set: "find P xs = Some x \<Longrightarrow> P x \<and> x \<in> set xs"
  by (induction xs) (auto split: if_splits)

lemma split_last_example: "split_last ''profile_192.168.1.5'' = ''192.168.1.5''"
  by (simp add: split_last_def)

text \<open>
  What \<^const>\<open>check_device_changing_ips\<close> computes. It sets evidence exactly when the
  flow type contains \<^verbatim>\<open>conn\<close>, the MAC is present, the source address of the profile
  is a private IPv4 address not seen before, and the first IPv4 address that the store binds
  to the MAC differs from the source address; the evidence then names that address. When
  none of the bound addresses is an IPv4 address, no evidence is set. A source address
  already seen ends the call with nothing done, and a call that gets as far as the seen
  test marks the source address as seen. The bindings are left as they are.
\<close>

lemma device_changing_ips_condition:
  "(fst (check_device_changing_ips env flow_type smac profileid twid uid timestamp d) \<noteq> [] \<longleftrightarrow>
      str_contains ''conn'' flow_type \<and> smac \<noteq> [] \<and>
      ipv4 env (split_last profileid) \<and> is_private_ip env (split_last profileid) \<and>
      split_last profileid \<notin> seen_in_connlog d \<and>
      (\<exists>ips old_ip. get_ip_of_mac d smac = Some ips \<and> first_ipv4 env ips = Some old_ip \<and>
          old_ip \<noteq> split_last profileid)) \<and>
   (\<forall>ips old_ip. get_ip_of_mac d smac = Some ips \<and> first_ipv4 env ips = Some old_ip \<longrightarrow>
      fst (check_device_changing_ips env flow_type smac profileid twid uid timestamp d) = [] \<or>
      fst (check_device_changing_ips env flow_type smac profileid twid uid timestamp d) =
        [Device_changing_ips smac old_ip profileid twid uid timestamp]) \<and>
   (\<forall>ips. get_ip_of_mac d smac = Some ips \<and> (\<forall>ip \<in> set ips. \<not> ipv4 env ip) \<longrightarrow>
      fst (check_device_changing_ips env flow_type smac profileid twid uid timestamp d) = []) \<and>
   (split_last profileid \<in> seen_in_connlog d \<longrightarrow>
      check_device_changing_ips env flow_type smac profileid twid uid timestamp d = ([], d)) \<and>
   (str_contains ''conn'' flow_type \<and> smac \<noteq> [] \<and>
      ipv4 env (split_last profileid) \<and> is_private_ip env (split_last profileid) \<longrightarrow>
      split_last profileid \<in>
        seen_in_connlog (snd (check_device_changing_ips env flow_type smac profileid twid uid timestamp d))) \<and>
   get_ip_of_mac (snd (check_device_changing_ips env flow_type smac profileid twid uid timestamp d))
     = get_ip_of_mac d"
  by (auto simp: check_device_changing_ips_def was_ip_seen_in_connlog_before_def
        mark_srcip_as_seen_in_connlog_def first_ipv4_def Let_def find_None_iff
        dest: find_Some_set split: option.splits if_splits)

text \<open>
  C6. A first \<^verbatim>\<open>conn\<close> flow of the private address \<^verbatim>\<open>192.168.1.5\<close>, whose MAC the
  store binds to the public address \<^verbatim>\<open>8.8.8.8\<close>. The MAC is bound to no private IPv4
  address, so the condition of the specification does not hold; the check sets the evidence
  all the same, naming \<^verbatim>\<open>8.8.8.8\<close>: the bound address is tested with
  \<^verbatim>\<open>validators.ipv4\<close> only, although the comment in the loop says that the detection
  works only if both the old address and the source address are private IPv4 addresses.
  With the MAC bound to the private address \<^verbatim>\<open>192.168.1.9\<close> the condition holds and
  the evidence is set, and with the MAC bound to IPv6 addresses only there is none.
\<close>

theorem device_changing_ips_public_bound_address:
  "\<not> spec_device_changing_ips example_addr_env ''conn'' ''00:11:22:33:44:55'' ''profile_192.168.1.5''
     (example_mac_db [''8.8.8.8'']) \<and>
   fst (check_device_changing_ips example_addr_env ''conn'' ''00:11:22:33:44:55''
          ''profile_192.168.1.5'' ''timewindow1'' ''CuidA'' 0 (example_mac_db [''8.8.8.8''])) =
     [Device_changing_ips ''00:11:22:33:44:55'' ''8.8.8.8'' ''profile_192.168.1.5''
        ''timewindow1'' ''CuidA'' 0] \<and>
   spec_device_changing_ips example_addr_env ''conn'' ''00:11:22:33:44:55'' ''profile_192.168.1.5''
     (example_mac_db [''192.168.1.9'']) \<and>
   fst (check_device_changing_ips example_addr_env ''conn'' ''00:11:22:33:44:55''
          ''profile_192.168.1.5'' ''timewindow1'' ''CuidA'' 0 (example_mac_db [''192.168.1.9''])) =
     [Device_changing_ips ''00:11:22:33:44:55'' ''192.168.1.9'' ''profile_192.168.1.5''
        ''timewindow1'' ''CuidA'' 0] \<and>
   fst (check_device_changing_ips example_addr_env ''conn'' ''00:11:22:33:44:55''
          ''profile_192.168.1.5'' ''timewindow1'' ''CuidA'' 0
          (example_mac_db [''fe80::1'', ''fe80::2''])) = []"
  by (simp add: spec_device_changing_ips_def check_device_changing_ips_def example_addr_env_def
        example_mac_db_def split_last_example was_ip_seen_in_connlog_before_def
        mark_srcip_as_seen_in_connlog_def first_ipv4_def Let_def)

section \<open>Properties of the multiple-ports check\<close>

text \<open>
  C7. An established TCP flow to an unknown port from 10.0.0.1 to 10.0.0.2, seen in the
  profile of the destination, with a store that holds no aggregate: the lookup
  \<^verbatim>\<open>saddrs[saddr]\<close> raises \<^verbatim>\<open>KeyError\<close>. The same flow seen in the profile of the
  source ends without evidence, by the test \<^verbatim>\<open>if daddr not in daddrs: return\<close>.
\<close>

theorem multiple_ports_store_miss_raises:
  "detect_connection_to_multiple_ports example_ports_env ''10.0.0.1'' ''10.0.0.2'' ''tcp''
       ''Established'' '''' 8080 0 ''profile_10.0.0.2'' ''timewindow1''
     = Inl KeyError \<and>
   detect_connection_to_multiple_ports example_ports_env ''10.0.0.1'' ''10.0.0.2'' ''tcp''
       ''Established'' '''' 8080 0 ''profile_10.0.0.1'' ''timewindow1''
     = Inr []"
  by (simp add: detect_connection_to_multiple_ports_def example_ports_env_def truthy_def
        split_1_def split_last_def)

theorem multiple_ports_store_miss_raises_witness:
  "\<not> (\<exists>evidence. detect_connection_to_multiple_ports example_ports_env ''10.0.0.1'' ''10.0.0.2''
          ''tcp'' ''Established'' '''' 8080 0 ''profile_10.0.0.2'' ''timewindow1'' = Inr evidence)"
  using multiple_ports_store_miss_raises by simp

section \<open>Properties of the DNS analyzer\<close>

lemma detect_dga_below:
  assumes "countable_nxdomain W (rcode_name, query, uid)"
      and "(case map_of nx (nxdomains_key profileid twid) of None \<Rightarrow> ([], []) | Some qu \<Rightarrow> qu)
             = (q0, u0)"
      and "Suc (length q0) < n"
  shows "detect_dga W n rcode_name query timestamp profileid twid uid nx =
           ([], AList.update (nxdomains_key profileid twid) (q0 @ [query], u0 @ [uid]) nx)"
  using assms by (simp add: detect_dga_def countable_nxdomain_def Let_def)

lemma detect_dga_fires:
  assumes "countable_nxdomain W (rcode_name, query, uid)"
      and "(case map_of nx (nxdomains_key profileid twid) of None \<Rightarrow> ([], []) | Some qu \<Rightarrow> qu)
             = (q0, u0)"
      and "n \<le> Suc (length q0)"
  shows "detect_dga W n rcode_name query timestamp profileid twid uid nx =
           ([Dga (int (Suc (length q0))) timestamp profileid twid (u0 @ [uid])],
            AList.update (nxdomains_key profileid twid) ([], []) nx)"
  using assms by (simp add: detect_dga_def countable_nxdomain_def Let_def)

lemma dga_run_below:
  assumes "\<forall>t \<in> set ts. countable_nxdomain W t"
      and "(case map_of nx (nxdomains_key profileid twid) of None \<Rightarrow> ([], []) | Some qu \<Rightarrow> qu)
             = (q0, u0)"
      and "length q0 + length ts < n"
  shows "dga_run W n timestamp profileid twid ts nx =
           (replicate (length ts) [],
            if ts = [] then nx
            else AList.update (nxdomains_key profileid twid)
                   (q0 @ map txn_query ts, u0 @ map txn_uid ts) nx)"
  using assms
proof (induction ts arbitrary: nx q0 u0)
  case Nil
  then show ?case by simp
next
  case (Cons t ts)
  obtain rcode_name query uid where t: "t = (rcode_name, query, uid)" by (cases t) auto
  let ?key = "nxdomains_key profileid twid"
  let ?nx' = "AList.update ?key (q0 @ [query], u0 @ [uid]) nx"
  from Cons.prems t have c: "countable_nxdomain W (rcode_name, query, uid)" by simp
  from Cons.prems have lt: "Suc (length q0) < n" by simp
  have step: "detect_dga W n rcode_name query timestamp profileid twid uid nx = ([], ?nx')"
    by (rule detect_dga_below[OF c Cons.prems(2) lt])
  have look: "(case map_of ?nx' ?key of None \<Rightarrow> ([], []) | Some qu \<Rightarrow> qu)
                = (q0 @ [query], u0 @ [uid])"
    by (simp add: update_conv')
  have rest: "dga_run W n timestamp profileid twid ts ?nx' =
           (replicate (length ts) [],
            if ts = [] then ?nx'
            else AList.update ?key
                   ((q0 @ [query]) @ map txn_query ts, (u0 @ [uid]) @ map txn_uid ts) ?nx')"
    using Cons.prems by (intro Cons.IH[OF _ look]) auto
  show ?case unfolding t
    by (simp add: step rest txn_query_def txn_uid_def)
qed

text \<open>
  C4. With the threshold at 10 and the counter empty, nine NXDOMAIN queries that are
  neither ARPA, local nor whitelisted set no evidence, one call after the other, and leave
  their domains and uids, in order, under the key of the profile and time window. The tenth
  such query sets exactly one DGA evidence, with the count 10 and the ten uids, and leaves
  the key with two empty lists.
\<close>

theorem dga_fires_on_tenth_nxdomain:
  assumes "length ts = 9"
      and "\<forall>t \<in> set ts. countable_nxdomain W t"
      and "countable_nxdomain W (rcode_name, query, uid)"
  shows "dga_run W 10 timestamp profileid twid ts [] =
           (replicate 9 [], [(nxdomains_key profileid twid, (map txn_query ts, map txn_uid ts))]) \<and>
         detect_dga W 10 rcode_name query timestamp profileid twid uid
             (snd (dga_run W 10 timestamp profileid twid ts [])) =
           ([Dga 10 timestamp profileid twid (map txn_uid ts @ [uid])],
            [(nxdomains_key profileid twid, ([], []))])"
proof -
  let ?key = "nxdomains_key profileid twid"
  have e: "(case map_of ([] :: nxdomains) ?key of None \<Rightarrow> ([], []) | Some qu \<Rightarrow> qu) = ([], [])"
    by simp
  from assms(1) have ne: "ts \<noteq> []" by auto
  have run: "dga_run W 10 timestamp profileid twid ts [] =
           (replicate 9 [], [(?key, (map txn_query ts, map txn_uid ts))])"
    using dga_run_below[OF assms(2) e, of 10 timestamp] assms(1) ne by simp
  have look: "(case map_of [(?key, (map txn_query ts, map txn_uid ts))] ?key of
                 None \<Rightarrow> ([], []) | Some qu \<Rightarrow> qu) = (map txn_query ts, map txn_uid ts)"
    by simp
  have fire: "detect_dga W 10 rcode_name query timestamp profileid twid uid
                [(?key, (map txn_query ts, map txn_uid ts))] =
           ([Dga 10 timestamp profileid twid (map txn_uid ts @ [uid])], [(?key, ([], []))])"
    using detect_dga_fires[OF assms(3) look, of 10 timestamp] assms(1) by simp
  show ?thesis by (simp add: run fire)
qed

theorem dga_fires_on_tenth_nxdomain_witness:
  "dga_run (\<lambda>_. False) 10 0 ''profile_192.168.1.1'' ''timewindow1''
     [(''NXDOMAIN'', ''example1.com'', ''uid1''),
      (''NXDOMAIN'', ''example2.com'', ''uid2''),
      (''NXDOMAIN'', ''example3.com'', ''uid3''),
      (''NXDOMAIN'', ''example4.com'', ''uid4''),
      (''NXDOMAIN'', ''example5.com'', ''uid5''),
      (''NXDOMAIN'', ''example6.com'', ''uid6''),
      (''NXDOMAIN'', ''example7.com'', ''uid7''),
      (''NXDOMAIN'', ''example8.com'', ''uid8''),
      (''NXDOMAIN'', ''example9.com'', ''uid9'')] []
     = (replicate 9 [],
        [(nxdomains_key ''profile_192.168.1.1'' ''timewindow1'',
          ([''example1.com'', ''example2.com'', ''example3.com'', ''example4.com'',
            ''example5.com'', ''example6.com'', ''example7.com'', ''example8.com'',
            ''example9.com''],
           [''uid1'', ''uid2'', ''uid3'', ''uid4'', ''uid5'', ''uid6'', ''uid7'', ''uid8'',
            ''uid9'']))]) \<and>
   detect_dga (\<lambda>_. False) 10 ''NXDOMAIN'' ''example10.com'' 0
       ''profile_192.168.1.1'' ''timewindow1'' ''uid10''
       [(nxdomains_key ''profile_192.168.1.1'' ''timewindow1'',
          ([''example1.com'', ''example2.com'', ''example3.com'', ''example4.com'',
            ''example5.com'', ''example6.com'', ''example7.com'', ''example8.com'',
            ''example9.com''],
           [''uid1'', ''uid2'', ''uid3'', ''uid4'', ''uid5'', ''uid6'', ''uid7'', ''uid8'',
            ''uid9'']))]
     = ([Dga 10 0 ''profile_192.168.1.1'' ''timewindow1''
           [''uid1'', ''uid2'', ''uid3'', ''uid4'', ''uid5'', ''uid6'', ''uid7'', ''uid8'',
            ''uid9'', ''uid10'']],
        [(nxdomains_key ''profile_192.168.1.1'' ''timewindow1'', ([], []))])"
proof -
  let ?ts = "[(''NXDOMAIN'', ''example1.com'', ''uid1''),
      (''NXDOMAIN'', ''example2.com'', ''uid2''),
      (''NXDOMAIN'', ''example3.com'', ''uid3''),
      (''NXDOMAIN'', ''example4.com'', ''uid4''),
      (''NXDOMAIN'', ''example5.com'', ''uid5''),
      (''NXDOMAIN'', ''example6.com'', ''uid6''),
      (''NXDOMAIN'', ''example7.com'', ''uid7''),
      (''NXDOMAIN'', ''example8.com'', ''uid8''),
      (''NXDOMAIN'', ''example9.com'', ''uid9'')]"
  have len: "length ?ts = 9" by simp
  have all: "\<forall>t \<in> set ?ts. countable_nxdomain (\<lambda>_. False) t"
    by (simp add: countable_nxdomain_def endswith_def)
  have tenth: "countable_nxdomain (\<lambda>_. False) (''NXDOMAIN'', ''example10.com'', ''uid10'')"
    by (simp add: countable_nxdomain_def endswith_def)
  have run: "snd (dga_run (\<lambda>_. False) 10 0 ''profile_192.168.1.1'' ''timewindow1'' ?ts []) =
     [(nxdomains_key ''profile_192.168.1.1'' ''timewindow1'', (map txn_query ?ts, map txn_uid ?ts))]"
    using dga_fires_on_tenth_nxdomain[OF len all tenth, of 0 "''profile_192.168.1.1''" "''timewindow1''"]
    by simp
  from dga_fires_on_tenth_nxdomain[OF len all tenth, of 0 "''profile_192.168.1.1''" "''timewindow1''"]
  show ?thesis unfolding run by (simp add: txn_query_def txn_uid_def)
qed

lemma check_invalid_localhost:
  "check_invalid_dns_answers is_invalid ''localhost'' answers profileid twid timestamp uid cache
     = ([], cache)"
  by (induction answers arbitrary: cache) simp_all

lemma check_invalid_other:
  "domain \<noteq> ''localhost'' \<Longrightarrow>
   check_invalid_dns_answers is_invalid domain answers profileid twid timestamp uid cache =
     (map (\<lambda>answer. Invalid_dns_answer domain answer profileid twid timestamp uid)
        (filter is_invalid answers),
      (\<lambda>k. if k \<in> set answers \<and> is_invalid k then None else cache k))"
proof (induction answers arbitrary: cache)
  case Nil
  show ?case by simp
next
  case (Cons a answers)
  from Cons.prems show ?case
    by (auto simp: Cons.IH[OF Cons.prems] delete_dns_resolution_def fun_eq_iff)
qed

text \<open>
  C8. For the query \<^verbatim>\<open>localhost\<close> the check sets no evidence and leaves the cache as it
  is. For any other query it sets one evidence for each answer that is invalid, naming that
  answer, in the order of the answers and none for the others, and the cache afterwards
  has lost exactly the entries of the invalid answers.
\<close>

theorem check_invalid_dns_answers_result:
  "check_invalid_dns_answers is_invalid domain answers profileid twid timestamp uid cache =
     (if domain = ''localhost'' then ([], cache)
      else (map (\<lambda>answer. Invalid_dns_answer domain answer profileid twid timestamp uid)
              (filter is_invalid answers),
            (\<lambda>k. if k \<in> set answers \<and> is_invalid k then None else cache k)))"
  by (simp add: check_invalid_localhost check_invalid_other)

theorem check_invalid_dns_answers_result_witness:
  "fst (check_invalid_dns_answers (\<lambda>a. a = ''127.0.0.1'' \<or> a = ''0.0.0.0'') ''example.com''
          [''127.0.0.1'', ''8.8.8.8''] ''profileid_1.1.1.1'' ''timewindow1'' 1234567890 ''uid1''
          (\<lambda>k. if k = ''127.0.0.1'' then Some [''example.com''] else None))
     = [Invalid_dns_answer ''example.com'' ''127.0.0.1'' ''profileid_1.1.1.1'' ''timewindow1''
          1234567890 ''uid1''] \<and>
   snd (check_invalid_dns_answers (\<lambda>a. a = ''127.0.0.1'' \<or> a = ''0.0.0.0'') ''example.com''
          [''127.0.0.1'', ''8.8.8.8''] ''profileid_1.1.1.1'' ''timewindow1'' 1234567890 ''uid1''
          (\<lambda>k. if k = ''127.0.0.1'' then Some [''example.com''] else None)) ''127.0.0.1''
     = None \<and>
   check_invalid_dns_answers (\<lambda>a. a = ''127.0.0.1'' \<or> a = ''0.0.0.0'') ''localhost''
          [''127.0.0.1''] ''profileid_1.1.1.1'' ''timewindow1'' 1234567890 ''uid1''
          (\<lambda>k. if k = ''127.0.0.1'' then Some [''example.com''] else None)
     = ([], (\<lambda>k. if k = ''127.0.0.1'' then Some [''example.com''] else None))"
  by (simp add: check_invalid_dns_answers_result)

end
